theory Spec2Isabelle
  imports Complex_Main "HOL-Library.AList"
begin

section \<open>Python values used by the scripts\<close>

text \<open>
  Python \<open>str\<close> values are modelled as \<open>string\<close>, one \<open>char\<close> per code point
  (code points below 256).  Python \<open>int\<close> is \<open>int\<close>.  The \<open>float\<close> delay of the
  retry loop is modelled by exact arithmetic on \<open>real\<close>; rounding of IEEE doubles is
  outside the model.
\<close>

text \<open>The exception classes the code can meet; all are subclasses of \<open>Exception\<close>.\<close>

datatype py_exception =
  ValueError | OSError | GaiError | OverflowError | TimeoutError | ClientError | RuntimeError

datatype level = INFO | WARNING | ERROR

text \<open>Values interpolated into a log message.\<close>

datatype arg = AStr string | AInt int | ABool bool | AExc py_exception

text \<open>
  The observable effects, in program order.  A log record keeps the level, the text of
  the message with its placeholders, and the interpolated values.
\<close>

datatype event =
    Log level string "arg list"
  | Print string "arg list"
  | Probe string int
  | Sleep real
  | InitializeGraphiti
  | Yield
  | StartServer

text \<open>\<open>s.startswith(p)\<close>\<close>

definition startswith :: "string \<Rightarrow> string \<Rightarrow> bool" where
  "startswith s p = (take (length p) s = p)"

text \<open>
  \<open>str.isspace\<close> on one code point below 256: the characters that \<open>str.strip()\<close>
  removes.
\<close>

definition py_isspace :: "char \<Rightarrow> bool" where
  "py_isspace c =
     (let n = of_char c :: nat
      in (9 \<le> n \<and> n \<le> 13) \<or> (28 \<le> n \<and> n \<le> 32) \<or> n = 133 \<or> n = 160)"

text \<open>\<open>s.strip()\<close>\<close>

definition strip :: "string \<Rightarrow> string" where
  "strip s = rev (dropWhile py_isspace (rev (dropWhile py_isspace s)))"

definition is_digit :: "char \<Rightarrow> bool" where
  "is_digit c = (let n = of_char c :: nat in 48 \<le> n \<and> n \<le> 57)"

definition digit_val :: "char \<Rightarrow> int" where
  "digit_val c = int (of_char c) - 48"

text \<open>
  The digit part of a decimal literal accepted by \<open>int()\<close>: digits, with single
  underscores allowed between two digits only.
\<close>

fun digits_ok :: "string \<Rightarrow> bool" where
  "digits_ok [] = False"
| "digits_ok [c] = is_digit c"
| "digits_ok (c # d # cs) =
     (if is_digit c then
        (if d = CHR ''_'' then digits_ok cs else digits_ok (d # cs))
      else False)"

definition digits_value :: "string \<Rightarrow> int" where
  "digits_value ds = foldl (\<lambda>acc c. 10 * acc + digit_val c) 0 (filter is_digit ds)"

text \<open>
  The white space that \<open>int()\<close> skips around a literal: tab to carriage return, the
  space, and the white space beyond ASCII (U+0085, U+00A0).  The ASCII separators
  U+001C to U+001F are white space for \<open>str.strip()\<close> but not for \<open>int()\<close>.
\<close>

definition int_isspace :: "char \<Rightarrow> bool" where
  "int_isspace c =
     (let n = of_char c :: nat
      in (9 \<le> n \<and> n \<le> 13) \<or> n = 32 \<or> n = 133 \<or> n = 160)"

text \<open>
  \<open>int(s)\<close> for a \<open>str\<close> argument, base 10: surrounding white space is dropped, one
  sign is allowed, and anything else raises \<open>ValueError\<close>.  (The interpreter's limit on
  the number of digits is not modelled.)
\<close>

definition py_int :: "string \<Rightarrow> py_exception + int" where
  "py_int s =
     (let t = rev (dropWhile int_isspace (rev (dropWhile int_isspace s)));
          neg = (t \<noteq> [] \<and> hd t = CHR ''-'');
          body = (if t \<noteq> [] \<and> (hd t = CHR ''-'' \<or> hd t = CHR ''+'') then tl t else t)
      in if digits_ok body
         then Inr (if neg then - digits_value body else digits_value body)
         else Inl ValueError)"

section \<open>The TCP reachability probe\<close>

text \<open>
  One pass through the \<open>try\<close> block of \<open>wait_for_neo4j\<close>: either \<open>connect_ex\<close>
  returns an error number (0 for an established connection), or one of the socket calls
  raises.
\<close>

datatype probe_outcome = Returned int | Raised py_exception

text \<open>
  The network as the loop sees it: the outcome of the attempt with a given index
  against a given host and port.
\<close>

type_synonym network = "string \<Rightarrow> int \<Rightarrow> nat \<Rightarrow> probe_outcome"

section \<open>startup.py\<close>

text \<open>Lines 26 to 34 of \<open>wait_for_neo4j\<close>: host and port from the URI.\<close>

definition startup_extract_host_port :: "string \<Rightarrow> py_exception + (string \<times> int)" where
  "startup_extract_host_port uri0 =
     (let uri = (if startswith uri0 ''bolt://'' then drop 6 uri0 else uri0)
      in if CHR '':'' \<in> set uri then
           (let host = takeWhile (\<lambda>c. c \<noteq> CHR '':'') uri;
                port_str = tl (dropWhile (\<lambda>c. c \<noteq> CHR '':'') uri)
            in case py_int port_str of
                 Inl e \<Rightarrow> Inl e
               | Inr port \<Rightarrow> Inr (host, port))
         else Inr (uri, 7687))"

text \<open>
  The body of the \<open>try\<close> statement, lines 39 to 52: the flag says whether the function
  returns \<open>True\<close> from inside it.
\<close>

definition startup_attempt ::
  "probe_outcome \<Rightarrow> string \<Rightarrow> int \<Rightarrow> int \<Rightarrow> int \<Rightarrow> bool \<times> event list" where
  "startup_attempt out host port attempt max_retries =
     (case out of
        Returned result \<Rightarrow>
          if result = 0
          then (True, [Probe host port,
                       Log INFO ''Neo4j is ready at {host}:{port}'' [AStr host, AInt port]])
          else (False, [Probe host port,
                        Log WARNING ''Neo4j not ready (attempt {attempt + 1}/{max_retries})''
                          [AInt (attempt + 1), AInt max_retries]])
      | Raised e \<Rightarrow>
          (False, [Probe host port,
                   Log WARNING
                     ''Connection attempt failed (attempt {attempt + 1}/{max_retries}): {e}''
                     [AInt (attempt + 1), AInt max_retries, AExc e]]))"

text \<open>
  The \<open>for attempt in range(max_retries)\<close> loop, lines 38 to 59, from the iteration
  with index \<open>attempt\<close> on.
\<close>

function startup_retry_loop ::
  "(nat \<Rightarrow> probe_outcome) \<Rightarrow> string \<Rightarrow> int \<Rightarrow> int \<Rightarrow> int \<Rightarrow> real \<Rightarrow> bool \<times> event list" where
  "startup_retry_loop probe host port max_retries attempt retry_delay =
     (if attempt < max_retries then
        (case startup_attempt (probe (nat attempt)) host port attempt max_retries of
           (True, evs) \<Rightarrow> (True, evs)
         | (False, evs) \<Rightarrow>
             if attempt < max_retries - 1 then
               apsnd (\<lambda>tr. evs @ Sleep retry_delay # tr)
                 (startup_retry_loop probe host port max_retries (attempt + 1)
                    (min (retry_delay * (12 / 10)) 10))
             else
               apsnd (\<lambda>tr. evs @ tr)
                 (startup_retry_loop probe host port max_retries (attempt + 1) retry_delay))
      else (False, [Log ERROR ''Neo4j failed to become ready after all retries'' []]))"
  by pat_completeness auto
termination
  by (relation "measure (\<lambda>(probe, host, port, max_retries, attempt, retry_delay).
        nat (max_retries - attempt))") auto

declare startup_retry_loop.simps [simp del]

text \<open>\<open>wait_for_neo4j(uri, max_retries, retry_delay)\<close> of startup.py.\<close>

definition startup_wait_for_neo4j ::
  "network \<Rightarrow> string \<Rightarrow> int \<Rightarrow> real \<Rightarrow> py_exception + (bool \<times> event list)" where
  "startup_wait_for_neo4j net uri max_retries retry_delay =
     (case startup_extract_host_port uri of
        Inl e \<Rightarrow> Inl e
      | Inr (host, port) \<Rightarrow>
          Inr (apsnd (\<lambda>tr. Log INFO ''Waiting for Neo4j at {host}:{port}''
                               [AStr host, AInt port] # tr)
                 (startup_retry_loop (net host port) host port max_retries 0 retry_delay)))"

section \<open>main.py\<close>

text \<open>Lines 22 to 30 of \<open>wait_for_neo4j\<close> in main.py.\<close>

definition main_extract_host_port :: "string \<Rightarrow> py_exception + (string \<times> int)" where
  "main_extract_host_port uri0 =
     (let uri = (if startswith uri0 ''bolt://'' then drop 6 uri0 else uri0)
      in if CHR '':'' \<in> set uri then
           (let host = takeWhile (\<lambda>c. c \<noteq> CHR '':'') uri;
                port_str = tl (dropWhile (\<lambda>c. c \<noteq> CHR '':'') uri)
            in case py_int port_str of
                 Inl e \<Rightarrow> Inl e
               | Inr port \<Rightarrow> Inr (host, port))
         else Inr (uri, 7687))"

text \<open>The body of the \<open>try\<close> statement, lines 35 to 48 of main.py.\<close>

definition main_attempt ::
  "probe_outcome \<Rightarrow> string \<Rightarrow> int \<Rightarrow> int \<Rightarrow> int \<Rightarrow> bool \<times> event list" where
  "main_attempt out host port attempt max_retries =
     (case out of
        Returned result \<Rightarrow>
          if result = 0
          then (True, [Probe host port,
                       Log INFO ''Neo4j is ready at {host}:{port}'' [AStr host, AInt port]])
          else (False, [Probe host port,
                        Log WARNING ''Neo4j not ready (attempt {attempt + 1}/{max_retries})''
                          [AInt (attempt + 1), AInt max_retries]])
      | Raised e \<Rightarrow>
          (False, [Probe host port,
                   Log WARNING
                     ''Connection attempt failed (attempt {attempt + 1}/{max_retries}): {e}''
                     [AInt (attempt + 1), AInt max_retries, AExc e]]))"

text \<open>The loop of main.py, lines 34 to 55.\<close>

function main_retry_loop ::
  "(nat \<Rightarrow> probe_outcome) \<Rightarrow> string \<Rightarrow> int \<Rightarrow> int \<Rightarrow> int \<Rightarrow> real \<Rightarrow> bool \<times> event list" where
  "main_retry_loop probe host port max_retries attempt retry_delay =
     (if attempt < max_retries then
        (case main_attempt (probe (nat attempt)) host port attempt max_retries of
           (True, evs) \<Rightarrow> (True, evs)
         | (False, evs) \<Rightarrow>
             if attempt < max_retries - 1 then
               apsnd (\<lambda>tr. evs @ Sleep retry_delay # tr)
                 (main_retry_loop probe host port max_retries (attempt + 1)
                    (min (retry_delay * (12 / 10)) 10))
             else
               apsnd (\<lambda>tr. evs @ tr)
                 (main_retry_loop probe host port max_retries (attempt + 1) retry_delay))
      else (False, [Log ERROR ''Neo4j failed to become ready after all retries'' []]))"
  by pat_completeness auto
termination
  by (relation "measure (\<lambda>(probe, host, port, max_retries, attempt, retry_delay).
        nat (max_retries - attempt))") auto

declare main_retry_loop.simps [simp del]

text \<open>\<open>wait_for_neo4j(uri, max_retries, retry_delay)\<close> of main.py.\<close>

definition main_wait_for_neo4j ::
  "network \<Rightarrow> string \<Rightarrow> int \<Rightarrow> real \<Rightarrow> py_exception + (bool \<times> event list)" where
  "main_wait_for_neo4j net uri max_retries retry_delay =
     (case main_extract_host_port uri of
        Inl e \<Rightarrow> Inl e
      | Inr (host, port) \<Rightarrow>
          Inr (apsnd (\<lambda>tr. Log INFO ''Waiting for Neo4j at {host}:{port}''
                               [AStr host, AInt port] # tr)
                 (main_retry_loop (net host port) host port max_retries 0 retry_delay)))"

text \<open>
  \<open>lifespan\<close>, lines 58 to 79 of main.py.  \<open>neo4j_uri\<close> is \<open>settings.neo4j_uri\<close>;
  \<open>init\<close> is what the opaque call \<open>initialize_graphiti(settings)\<close> does: \<open>None\<close> when it
  returns, \<open>Some e\<close> when it raises \<open>e\<close>.  \<open>Yield\<close> is the point where the server runtime
  takes over and serves; the events after it are those of the shutdown.  An exception
  that leaves \<open>wait_for_neo4j\<close> leaves \<open>lifespan\<close> too.
\<close>

definition lifespan :: "network \<Rightarrow> string \<Rightarrow> py_exception option \<Rightarrow> py_exception + event list" where
  "lifespan net neo4j_uri init =
     (case main_wait_for_neo4j net neo4j_uri 30 2 of
        Inl e \<Rightarrow> Inl e
      | Inr (ok, tr) \<Rightarrow>
          Inr (tr
               @ (if \<not> ok
                  then [Log ERROR ''Failed to connect to Neo4j, but continuing startup'' []]
                  else [])
               @ [InitializeGraphiti]
               @ (case init of
                    None \<Rightarrow> [Log INFO ''Graphiti initialized successfully'' []]
                  | Some e \<Rightarrow> [Log ERROR ''Failed to initialize Graphiti: {e}'' [AExc e]])
               @ [Yield, Log INFO ''Shutting down Graphiti server'' []]))"

section \<open>The entry point of startup.py\<close>

text \<open>The process environment, and \<open>os.getenv\<close> with a default.\<close>

type_synonym environ = "string \<rightharpoonup> string"

definition getenv_default :: "environ \<Rightarrow> string \<Rightarrow> string \<Rightarrow> string" where
  "getenv_default environ var dflt = (case environ var of None \<Rightarrow> dflt | Some v \<Rightarrow> v)"

text \<open>How a script ends.\<close>

datatype process_end = SysExit int | Uncaught py_exception | ReturnedNormally

text \<open>
  \<open>main\<close>, lines 62 to 90 of startup.py.  \<open>server\<close> is what the \<open>try\<close> block around the
  import of the application and \<open>uvicorn.run\<close> does: \<open>None\<close> when it returns, \<open>Some e\<close>
  when it raises \<open>e\<close>.
\<close>

definition startup_main ::
  "environ \<Rightarrow> network \<Rightarrow> py_exception option \<Rightarrow> process_end \<times> event list" where
  "startup_main environ net server =
     (let neo4j_uri = getenv_default environ ''NEO4J_URI'' ''bolt://neo4j:7687'';
          start = [Log INFO ''Starting Graphiti Knowledge Server initialization'' []]
      in case startup_wait_for_neo4j net neo4j_uri 30 2 of
           Inl e \<Rightarrow> (Uncaught e, start)
         | Inr (ok, tr) \<Rightarrow>
             if \<not> ok then
               (SysExit 1, start @ tr @ [Log ERROR ''Failed to connect to Neo4j, exiting'' []])
             else
               (case server of
                  None \<Rightarrow>
                    (ReturnedNormally,
                     start @ tr @ [Log INFO ''Neo4j is ready, starting server'' [], StartServer])
                | Some e \<Rightarrow>
                    (SysExit 1,
                     start @ tr @ [Log INFO ''Neo4j is ready, starting server'' [], StartServer,
                                   Log ERROR ''Failed to start server: {e}'' [AExc e]])))"

section \<open>HTTP requests and exception handlers\<close>

text \<open>
  What one HTTP GET of a URL does: \<open>Inr status\<close> when a response with that status
  arrives, \<open>Inl e\<close> when the call raises \<open>e\<close> (time-out, refused connection, any other
  failure).
\<close>

type_synonym http = "string \<Rightarrow> py_exception + int"

text \<open>
  \<open>try: body except Exception as e: handler\<close>.  A computation is \<open>Inl e\<close> when it
  raises \<open>e\<close> and \<open>Inr v\<close> when it completes with \<open>v\<close>.
\<close>

definition try_except ::
  "py_exception + 'a \<Rightarrow> (py_exception \<Rightarrow> py_exception + 'a) \<Rightarrow> py_exception + 'a" where
  "try_except body handler = (case body of Inl e \<Rightarrow> handler e | Inr v \<Rightarrow> Inr v)"

section \<open>healthcheck.py\<close>

text \<open>\<open>check_health\<close>, lines 9 to 21; \<open>urlopen\<close> is \<open>urllib.request.urlopen\<close>.\<close>

definition check_health :: "http \<Rightarrow> py_exception + (bool \<times> event list)" where
  "check_health urlopen =
     try_except
       (case urlopen ''http://localhost:8000/healthcheck'' of
          Inl e \<Rightarrow> Inl e
        | Inr code \<Rightarrow>
            if code = 200 then Inr (True, [Print ''Server is healthy'' []])
            else Inr (False, [Print ''Server returned status code: {response.getcode()}''
                                [AInt code]]))
       (\<lambda>e. Inr (False, [Print ''Health check failed: {e}'' [AExc e]]))"

text \<open>The script body, lines 23 to 27.\<close>

definition healthcheck_script :: "http \<Rightarrow> process_end \<times> event list" where
  "healthcheck_script urlopen =
     (case check_health urlopen of
        Inl e \<Rightarrow> (Uncaught e, [])
      | Inr (healthy, tr) \<Rightarrow> (if healthy then SysExit 0 else SysExit 1, tr))"

section \<open>verify_deployment.py\<close>

text \<open>\<open>check_neo4j_connection\<close>, lines 18 to 33.\<close>

definition check_neo4j_connection ::
  "string \<Rightarrow> string \<Rightarrow> string \<Rightarrow> py_exception + (bool \<times> event list)" where
  "check_neo4j_connection uri user password =
     try_except
       (if \<not> startswith uri ''bolt://''
        then Inr (False, [Log INFO ''Checking Neo4j connection to {uri}'' [AStr uri],
                          Log ERROR ''Invalid Neo4j URI format: {uri}'' [AStr uri]])
        else Inr (True, [Log INFO ''Checking Neo4j connection to {uri}'' [AStr uri],
                         Log INFO ''Neo4j URI format is valid'' []]))
       (\<lambda>e. Inr (False, [Log ERROR ''Neo4j connection check failed: {e}'' [AExc e]]))"

text \<open>\<open>check_server_health\<close>, lines 36 to 49.\<close>

definition check_server_health :: "http \<Rightarrow> string \<Rightarrow> py_exception + (bool \<times> event list)" where
  "check_server_health get url =
     try_except
       (case get (url @ ''/healthcheck'') of
          Inl e \<Rightarrow> Inl e
        | Inr status \<Rightarrow>
            if status = 200
            then Inr (True, [Log INFO ''Server health check passed: {url}'' [AStr url]])
            else Inr (False,
                      [Log ERROR ''Server health check failed with status {response.status}: {url}''
                         [AInt status, AStr url]]))
       (\<lambda>e. Inr (False, [Log ERROR ''Server health check failed: {url} - {e}''
                            [AStr url, AExc e]]))"

text \<open>
  \<open>check_api_endpoints\<close>, lines 52 to 74.  A \<open>dict\<close> is an association list in
  insertion order.  The loop over \<open>endpoints.items()\<close> issues one request per entry;
  \<open>get i\<close> is what the request of the entry with index \<open>i\<close> does.
\<close>

fun check_api_endpoints_loop ::
  "(nat \<Rightarrow> http) \<Rightarrow> string \<Rightarrow> (string \<times> string) list \<Rightarrow> nat \<Rightarrow> (string \<times> bool) list \<Rightarrow>
     py_exception + ((string \<times> bool) list \<times> event list)" where
  "check_api_endpoints_loop get base_url [] i results = Inr (results, [])"
| "check_api_endpoints_loop get base_url ((name, endpoint) # rest) i results =
     (case try_except
             (case get i (base_url @ endpoint) of
                Inl e \<Rightarrow> Inl e
              | Inr status \<Rightarrow>
                  Inr (AList.update name (status = 200) results,
                       [if status = 200
                        then Log INFO ''Endpoint {name} is accessible'' [AStr name]
                        else Log WARNING ''Endpoint {name} returned status {response.status}''
                               [AStr name, AInt status]]))
             (\<lambda>e. Inr (AList.update name False results,
                        [Log ERROR ''Endpoint {name} check failed: {e}'' [AStr name, AExc e]]))
      of
        Inl e \<Rightarrow> Inl e
      | Inr (results', evs) \<Rightarrow>
          (case check_api_endpoints_loop get base_url rest (Suc i) results' of
             Inl e \<Rightarrow> Inl e
           | Inr (r, tr) \<Rightarrow> Inr (r, evs @ tr)))"

definition check_api_endpoints ::
  "(nat \<Rightarrow> http) \<Rightarrow> string \<Rightarrow> py_exception + ((string \<times> bool) list \<times> event list)" where
  "check_api_endpoints get base_url =
     check_api_endpoints_loop get base_url
       [(''root'', ''/''), (''healthcheck'', ''/healthcheck'')] 0 []"

text \<open>
  \<open>check_environment_variables\<close>, lines 77 to 111: the test of one variable, then the
  loop over the required and the loop over the optional names.
\<close>

definition env_var_is_set :: "environ \<Rightarrow> string \<Rightarrow> bool" where
  "env_var_is_set environ var =
     (case environ var of None \<Rightarrow> False | Some v \<Rightarrow> strip v \<noteq> [])"

fun check_required_vars ::
  "environ \<Rightarrow> string list \<Rightarrow> (string \<times> bool) list \<Rightarrow> (string \<times> bool) list \<times> event list" where
  "check_required_vars environ [] results = (results, [])"
| "check_required_vars environ (var # vars) results =
     apsnd (\<lambda>tr. (if env_var_is_set environ var
                   then Log INFO ''Required environment variable {var} is set'' [AStr var]
                   else Log ERROR ''Required environment variable {var} is missing or empty''
                          [AStr var]) # tr)
       (check_required_vars environ vars
          (AList.update var (env_var_is_set environ var) results))"

fun check_optional_vars ::
  "environ \<Rightarrow> string list \<Rightarrow> (string \<times> bool) list \<Rightarrow> (string \<times> bool) list \<times> event list" where
  "check_optional_vars environ [] results = (results, [])"
| "check_optional_vars environ (var # vars) results =
     apsnd (\<lambda>tr. (if env_var_is_set environ var
                   then Log INFO ''Optional environment variable {var} is set: {value}''
                          [AStr var, AStr (the (environ var))]
                   else Log WARNING
                          ''Optional environment variable {var} is not set (using default)''
                          [AStr var]) # tr)
       (check_optional_vars environ vars
          (AList.update var (env_var_is_set environ var) results))"

definition check_environment_variables :: "environ \<Rightarrow> (string \<times> bool) list \<times> event list" where
  "check_environment_variables environ =
     (case check_required_vars environ [''OPENAI_API_KEY'', ''NEO4J_USER'', ''NEO4J_PASSWORD''] []
      of (results, tr) \<Rightarrow>
        (case check_optional_vars environ
                [''MODEL_NAME'', ''EMBEDDING_MODEL_NAME'', ''SEMAPHORE_LIMIT''] results
         of (results', tr') \<Rightarrow> (results', tr @ tr')))"

text \<open>\<open>d.get(key, default)\<close> on a \<open>Dict[str, bool]\<close>.\<close>

definition dict_get :: "(string \<times> bool) list \<Rightarrow> string \<Rightarrow> bool \<Rightarrow> bool" where
  "dict_get d key dflt = (case map_of d key of None \<Rightarrow> dflt | Some b \<Rightarrow> b)"

text \<open>
  The local variables of \<open>main\<close> when it returns, its return value and what it logged.
\<close>

record verification =
  required_env_ok :: bool
  neo4j_ok :: bool
  server_health :: bool
  api_ok :: bool
  overall_ok :: bool
  return_value :: int
  report :: "event list"

text \<open>
  \<open>main\<close>, lines 114 to 170.  \<open>get 0\<close> is what the request of \<open>check_server_health\<close>
  does, \<open>get (Suc i)\<close> what the request of the endpoint with index \<open>i\<close> does.
\<close>

definition verify_main :: "environ \<Rightarrow> (nat \<Rightarrow> http) \<Rightarrow> py_exception + verification" where
  "verify_main environ get =
     (case check_environment_variables environ of (env_check, env_log) \<Rightarrow>
     (let neo4j_uri = getenv_default environ ''NEO4J_URI'' ''bolt://neo4j:7687'';
          neo4j_user = getenv_default environ ''NEO4J_USER'' ''neo4j'';
          neo4j_password = getenv_default environ ''NEO4J_PASSWORD'' [];
          server_url = ''http://localhost:8000''
      in
     (case check_neo4j_connection neo4j_uri neo4j_user neo4j_password of
        Inl e \<Rightarrow> Inl e
      | Inr (neo4j, neo4j_log) \<Rightarrow>
     (case check_server_health (get 0) server_url of
        Inl e \<Rightarrow> Inl e
      | Inr (health, health_log) \<Rightarrow>
     (case check_api_endpoints (\<lambda>i. get (Suc i)) server_url of
        Inl e \<Rightarrow> Inl e
      | Inr (api_endpoints, api_log) \<Rightarrow>
     (let env_ok = list_all (\<lambda>var. dict_get env_check var False)
                     [''OPENAI_API_KEY'', ''NEO4J_USER'', ''NEO4J_PASSWORD''];
          api = list_all (\<lambda>b. b) (map snd api_endpoints);
          overall = (env_ok \<and> neo4j \<and> health \<and> api)
      in Inr \<lparr>
           required_env_ok = env_ok,
           neo4j_ok = neo4j,
           server_health = health,
           api_ok = api,
           overall_ok = overall,
           return_value = (if overall then 0 else 1),
           report =
             [Log INFO ''Starting Graphiti deployment verification'' []]
             @ env_log @ neo4j_log @ health_log @ api_log
             @ [Log INFO (CHR 0x0A # replicate 50 (CHR ''='')) [],
                Log INFO ''DEPLOYMENT VERIFICATION SUMMARY'' [],
                Log INFO (replicate 50 (CHR ''='')) [],
                Log INFO ''Environment Variables: {}'' [ABool env_ok],
                Log INFO ''Neo4j Connection: {}'' [ABool neo4j],
                Log INFO ''Server Health: {}'' [ABool health],
                Log INFO ''API Endpoints: {}'' [ABool api],
                Log INFO (CHR 0x0A # ''Overall Status: {}'') [ABool overall]]
             @ (if \<not> overall then
                  [Log INFO (CHR 0x0A # ''Troubleshooting steps:'') []]
                  @ (if \<not> env_ok
                     then [Log INFO ''- Check that all required environment variables are set'' []]
                     else [])
                  @ (if \<not> neo4j
                     then [Log INFO ''- Verify Neo4j is running and accessible'' []]
                     else [])
                  @ (if \<not> health
                     then [Log INFO ''- Check that the Graphiti server is running on port 8000'' []]
                     else [])
                  @ (if \<not> api
                     then [Log INFO ''- Verify API endpoints are responding correctly'' []]
                     else [])
                else [])
         \<rparr>))))))"

text \<open>The script body, lines 173 to 175.\<close>

definition verify_script :: "environ \<Rightarrow> (nat \<Rightarrow> http) \<Rightarrow> process_end \<times> event list" where
  "verify_script environ get =
     (case verify_main environ get of
        Inl e \<Rightarrow> (Uncaught e, [])
      | Inr v \<Rightarrow> (SysExit (return_value v), report v))"

section \<open>Observations on a run\<close>

text \<open>An attempt reaches the database when \<open>connect_ex\<close> returns 0.\<close>

definition reachable :: "probe_outcome \<Rightarrow> bool" where
  "reachable out = (out = Returned 0)"

text \<open>What \<open>wait_for_neo4j\<close> returned and what it did (nothing when it raised).\<close>

definition result_of :: "py_exception + (bool \<times> event list) \<Rightarrow> bool option" where
  "result_of r = (case r of Inl e \<Rightarrow> None | Inr (ok, tr) \<Rightarrow> Some ok)"

definition trace_of :: "py_exception + (bool \<times> event list) \<Rightarrow> event list" where
  "trace_of r = (case r of Inl e \<Rightarrow> [] | Inr (ok, tr) \<Rightarrow> tr)"

text \<open>The number of probe attempts in a trace.\<close>

fun probe_count :: "event list \<Rightarrow> nat" where
  "probe_count [] = 0"
| "probe_count (Probe h p # tr) = Suc (probe_count tr)"
| "probe_count (ev # tr) = probe_count tr"

text \<open>The delays slept, in order.\<close>

fun sleeps :: "event list \<Rightarrow> real list" where
  "sleeps [] = []"
| "sleeps (Sleep d # tr) = d # sleeps tr"
| "sleeps (ev # tr) = sleeps tr"

text \<open>The probe attempts and the sleeps of a trace, in order, without the log records.\<close>

fun schedule :: "event list \<Rightarrow> event list" where
  "schedule [] = []"
| "schedule (Probe h p # tr) = Probe h p # schedule tr"
| "schedule (Sleep d # tr) = Sleep d # schedule tr"
| "schedule (ev # tr) = schedule tr"

text \<open>
  The successive values of \<open>retry_delay\<close> under the update of line 56,
  \<open>retry_delay = min(retry_delay * 1.2, 10)\<close>: the first \<open>n\<close> of them.
\<close>

fun capped_delay_sequence :: "real \<Rightarrow> nat \<Rightarrow> real list" where
  "capped_delay_sequence d 0 = []"
| "capped_delay_sequence d (Suc n) = d # capped_delay_sequence (min (d * (12 / 10)) 10) n"

text \<open>
  The delay after attempt \<open>i\<close> (counted from 0) in the words of the specification:
  \<open>min(initial_delay * multiplier^i, max_delay)\<close>, with the multiplier 1.2 and the
  maximum 10 of the code.
\<close>

definition spec_delay :: "real \<Rightarrow> nat \<Rightarrow> real" where
  "spec_delay initial_delay i = min (initial_delay * (12 / 10) ^ i) 10"

text \<open>
  A schedule in which one sleep stands between each two consecutive probe attempts
  and nowhere else: one more attempt than there are delays.
\<close>

fun probes_and_sleeps :: "string \<Rightarrow> int \<Rightarrow> real list \<Rightarrow> event list" where
  "probes_and_sleeps h p [] = [Probe h p]"
| "probes_and_sleeps h p (d # ds) = Probe h p # Sleep d # probes_and_sleeps h p ds"

text \<open>Networks used as examples: \<open>connect_ex\<close> returns 111 for a refused connection.\<close>

definition always_refused :: network where
  "always_refused h p i = Returned 111"

definition always_reachable :: network where
  "always_reachable h p i = Returned 0"

definition ready_on_fourth :: network where
  "ready_on_fourth h p i = (if i < 3 then Returned 111 else Returned 0)"

definition dns_failure :: network where
  "dns_failure h p i = Raised GaiError"

text \<open>
  A required variable in the words of the specification: present and not blank.
\<close>

definition present_and_non_blank :: "environ \<Rightarrow> string \<Rightarrow> bool" where
  "present_and_non_blank environ var =
     (case environ var of None \<Rightarrow> False | Some v \<Rightarrow> \<not> list_all py_isspace v)"

text \<open>
  Servers and environments used as examples: every request answered with 200, every
  request failing with an exception, every request answered with 503; an environment
  with the three required variables, and one whose password is blank.
\<close>

definition all_ok :: "nat \<Rightarrow> http" where
  "all_ok i url = Inr 200"

definition all_down :: "nat \<Rightarrow> http" where
  "all_down i url = Inl ClientError"

definition all_unavailable :: "nat \<Rightarrow> http" where
  "all_unavailable i url = Inr 503"

definition full_env :: environ where
  "full_env = [''OPENAI_API_KEY'' \<mapsto> ''sk-test'', ''NEO4J_USER'' \<mapsto> ''neo4j'',
               ''NEO4J_PASSWORD'' \<mapsto> ''secret'']"

definition blank_password_env :: environ where
  "blank_password_env = [''OPENAI_API_KEY'' \<mapsto> ''sk-test'', ''NEO4J_USER'' \<mapsto> ''neo4j'',
               ''NEO4J_PASSWORD'' \<mapsto> ''  '']"

section \<open>Evaluating the parsers\<close>

lemmas parse_defs =
  startswith_def py_int_def int_isspace_def strip_def py_isspace_def is_digit_def
  digits_value_def digit_val_def

section \<open>The two copies of the retry loop\<close>

lemma main_attempt_eq: "main_attempt out h p a N = startup_attempt out h p a N"
  by (simp add: main_attempt_def startup_attempt_def)

lemma main_extract_eq: "main_extract_host_port uri = startup_extract_host_port uri"
  by (simp add: main_extract_host_port_def startup_extract_host_port_def)

lemma main_retry_loop_eq:
  "main_retry_loop probe h p N a d = startup_retry_loop probe h p N a d"
proof (induction "nat (N - a)" arbitrary: a d)
  case 0
  then have "\<not> a < N" by simp
  then show ?case
    by (simp add: main_retry_loop.simps startup_retry_loop.simps)
next
  case (Suc n)
  have step: "main_retry_loop probe h p N (a + 1) d' = startup_retry_loop probe h p N (a + 1) d'"
    for d'
    using Suc.hyps(2) by (intro Suc.hyps(1)) linarith
  show ?case
    by (subst main_retry_loop.simps, subst startup_retry_loop.simps)
       (simp add: main_attempt_eq step split: prod.splits bool.splits)
qed

lemma main_wait_eq:
  "main_wait_for_neo4j net uri N d = startup_wait_for_neo4j net uri N d"
  by (simp add: main_wait_for_neo4j_def startup_wait_for_neo4j_def main_extract_eq
      main_retry_loop_eq split: sum.splits)

section \<open>Traces of the retry loop\<close>

lemma probe_count_append: "probe_count (xs @ ys) = probe_count xs + probe_count ys"
  by (induction xs rule: probe_count.induct) auto

lemma sleeps_append: "sleeps (xs @ ys) = sleeps xs @ sleeps ys"
  by (induction xs rule: sleeps.induct) auto

lemma schedule_append: "schedule (xs @ ys) = schedule xs @ schedule ys"
  by (induction xs rule: schedule.induct) auto

lemma probe_count_schedule: "probe_count (schedule tr) = probe_count tr"
  by (induction tr rule: schedule.induct) auto

lemma sleeps_schedule: "sleeps (schedule tr) = sleeps tr"
  by (induction tr rule: schedule.induct) auto

lemma probe_count_probes_and_sleeps: "probe_count (probes_and_sleeps h p ds) = Suc (length ds)"
  by (induction ds) auto

lemma sleeps_probes_and_sleeps: "sleeps (probes_and_sleeps h p ds) = ds"
  by (induction ds) auto

lemma probes_and_sleeps_not_Nil: "probes_and_sleeps h p ds \<noteq> []"
  by (cases ds) auto

lemma last_probes_and_sleeps: "last (probes_and_sleeps h p ds) = Probe h p"
  by (induction ds) (auto simp: probes_and_sleeps_not_Nil)

lemma length_capped_delay_sequence: "length (capped_delay_sequence d n) = n"
  by (induction n arbitrary: d) auto

lemma startup_attempt_schedule: "schedule (snd (startup_attempt out h p a N)) = [Probe h p]"
  by (auto simp: startup_attempt_def split: probe_outcome.splits)

lemma startup_loop_stop:
  "\<not> a < N \<Longrightarrow> startup_retry_loop probe h p N a d =
     (False, [Log ERROR ''Neo4j failed to become ready after all retries'' []])"
  by (simp add: startup_retry_loop.simps)

lemma startup_loop_success:
  "a < N \<Longrightarrow> reachable (probe (nat a)) \<Longrightarrow>
   startup_retry_loop probe h p N a d = (True, snd (startup_attempt (probe (nat a)) h p a N))"
  by (subst startup_retry_loop.simps)
     (auto simp: startup_attempt_def reachable_def)

lemma startup_loop_retry:
  "a < N - 1 \<Longrightarrow> \<not> reachable (probe (nat a)) \<Longrightarrow>
   startup_retry_loop probe h p N a d =
     apsnd (\<lambda>tr. snd (startup_attempt (probe (nat a)) h p a N) @ Sleep d # tr)
       (startup_retry_loop probe h p N (a + 1) (min (d * (12 / 10)) 10))"
  by (subst startup_retry_loop.simps)
     (auto simp: startup_attempt_def reachable_def split: probe_outcome.splits)

lemma startup_loop_last:
  "a < N \<Longrightarrow> \<not> a < N - 1 \<Longrightarrow> \<not> reachable (probe (nat a)) \<Longrightarrow>
   startup_retry_loop probe h p N a d =
     (False, snd (startup_attempt (probe (nat a)) h p a N) @
        [Log ERROR ''Neo4j failed to become ready after all retries'' []])"
  by (subst startup_retry_loop.simps)
     (auto simp: startup_attempt_def reachable_def startup_loop_stop split: probe_outcome.splits)

lemma startup_loop_schedule:
  "0 \<le> a \<Longrightarrow> a < N \<Longrightarrow> startup_retry_loop probe h p N a d = (ok, tr) \<Longrightarrow>
   \<exists>k. 1 \<le> k \<and> int k \<le> N - a \<and>
       schedule tr = probes_and_sleeps h p (capped_delay_sequence d (k - 1)) \<and>
       (\<forall>i<k - 1. \<not> reachable (probe (nat a + i))) \<and>
       (ok \<longleftrightarrow> reachable (probe (nat a + (k - 1)))) \<and>
       (\<not> ok \<longrightarrow> int k = N - a)"
proof (induction "nat (N - a)" arbitrary: a d ok tr)
  case 0
  then show ?case by simp
next
  case (Suc n)
  show ?case
  proof (cases "reachable (probe (nat a))")
    case True
    with Suc.prems have "ok" "tr = snd (startup_attempt (probe (nat a)) h p a N)"
      by (auto simp: startup_loop_success)
    then show ?thesis using True Suc.prems(2)
      by (intro exI[of _ 1]) (auto simp: startup_attempt_schedule)
  next
    case False
    show ?thesis
    proof (cases "a < N - 1")
      case last: False
      with Suc.prems False have "\<not> ok" "tr = snd (startup_attempt (probe (nat a)) h p a N) @
        [Log ERROR ''Neo4j failed to become ready after all retries'' []]"
        by (auto simp: startup_loop_last)
      then show ?thesis using False last Suc.prems(2)
        by (intro exI[of _ 1]) (auto simp: startup_attempt_schedule schedule_append)
    next
      case True
      obtain ok' tr' where r: "startup_retry_loop probe h p N (a + 1) (min (d * (12 / 10)) 10) = (ok', tr')"
        by force
      with Suc.prems False True have eq: "ok = ok'"
        "tr = snd (startup_attempt (probe (nat a)) h p a N) @ Sleep d # tr'"
        by (auto simp: startup_loop_retry)
      have n: "n = nat (N - (a + 1))" using Suc.hyps(2) by linarith
      have a1: "0 \<le> a + 1" "a + 1 < N" using Suc.prems(1) True by auto
      have idx: "nat (a + 1) = Suc (nat a)" using Suc.prems(1) by simp
      from Suc.hyps(1)[OF n a1 r] obtain k where k: "1 \<le> k" "int k \<le> N - (a + 1)"
        "schedule tr' = probes_and_sleeps h p (capped_delay_sequence (min (d * (12 / 10)) 10) (k - 1))"
        "\<forall>i<k - 1. \<not> reachable (probe (nat (a + 1) + i))"
        "ok' \<longleftrightarrow> reachable (probe (nat (a + 1) + (k - 1)))"
        "\<not> ok' \<longrightarrow> int k = N - (a + 1)"
        by blast
      show ?thesis
      proof (intro exI[of _ "Suc k"] conjI)
        show "1 \<le> Suc k" by simp
        show "int (Suc k) \<le> N - a" using k(2) by simp
        show "schedule tr = probes_and_sleeps h p (capped_delay_sequence d (Suc k - 1))"
          using k(1,3) eq(2) by (cases k) (auto simp: schedule_append startup_attempt_schedule)
        show "\<forall>i<Suc k - 1. \<not> reachable (probe (nat a + i))"
        proof (intro allI impI)
          fix i assume i: "i < Suc k - 1"
          show "\<not> reachable (probe (nat a + i))"
          proof (cases i)
            case 0 then show ?thesis using False by simp
          next
            case (Suc j)
            then have "j < k - 1" using i by simp
            then have "\<not> reachable (probe (nat (a + 1) + j))" using k(4) by blast
            then show ?thesis using Suc idx by simp
          qed
        qed
        show "ok = reachable (probe (nat a + (Suc k - 1)))"
          using k(1,5) eq(1) idx by (cases k) auto
        show "\<not> ok \<longrightarrow> int (Suc k) = N - a" using k(6) eq(1) by simp
      qed
    qed
  qed
qed

lemma startup_wait_run:
  assumes ex: "startup_extract_host_port uri = Inr (h, p)" and N: "1 \<le> N"
  shows "\<exists>ok tr k. startup_wait_for_neo4j net uri N d = Inr (ok, tr) \<and>
           1 \<le> k \<and> int k \<le> N \<and>
           schedule tr = probes_and_sleeps h p (capped_delay_sequence d (k - 1)) \<and>
           (\<forall>i<k - 1. \<not> reachable (net h p i)) \<and>
           (ok \<longleftrightarrow> reachable (net h p (k - 1))) \<and>
           (\<not> ok \<longrightarrow> int k = N)"
proof -
  obtain ok tr where r: "startup_retry_loop (net h p) h p N 0 d = (ok, tr)" by force
  have w: "startup_wait_for_neo4j net uri N d =
      Inr (ok, Log INFO ''Waiting for Neo4j at {host}:{port}'' [AStr h, AInt p] # tr)"
    by (simp add: startup_wait_for_neo4j_def ex r)
  from startup_loop_schedule[OF _ _ r] N obtain k where "1 \<le> k" "int k \<le> N"
       "schedule tr = probes_and_sleeps h p (capped_delay_sequence d (k - 1))"
       "\<forall>i<k - 1. \<not> reachable (net h p i)"
       "ok \<longleftrightarrow> reachable (net h p (k - 1))"
       "\<not> ok \<longrightarrow> int k = N"
    by auto
  with w show ?thesis by (intro exI[of _ ok] exI[of _ "Log INFO ''Waiting for Neo4j at {host}:{port}'' [AStr h, AInt p] # tr"] exI[of _ k]) simp
qed

lemma startup_wait_low:
  assumes ex: "startup_extract_host_port uri = Inr (h, p)" and N: "\<not> 1 \<le> N"
  shows "startup_wait_for_neo4j net uri N d =
           Inr (False, [Log INFO ''Waiting for Neo4j at {host}:{port}'' [AStr h, AInt p],
                        Log ERROR ''Neo4j failed to become ready after all retries'' []])"
  using N by (simp add: startup_wait_for_neo4j_def ex startup_loop_stop)

lemma startup_wait_total:
  "startup_extract_host_port uri = Inr (h, p) \<Longrightarrow>
   \<exists>ok tr. startup_wait_for_neo4j net uri N d = Inr (ok, tr)"
  by (simp add: startup_wait_for_neo4j_def apsnd_def map_prod_def split: prod.splits)

lemma startup_wait_sleeps:
  "sleeps (trace_of (startup_wait_for_neo4j net uri N d)) =
     capped_delay_sequence d (probe_count (trace_of (startup_wait_for_neo4j net uri N d)) - 1)"
proof (cases "startup_extract_host_port uri")
  case (Inl e)
  then show ?thesis by (simp add: startup_wait_for_neo4j_def trace_of_def)
next
  case (Inr hp)
  obtain h p where hp: "hp = (h, p)" by force
  show ?thesis
  proof (cases "1 \<le> N")
    case False
    from startup_wait_low[OF Inr[unfolded hp] False] show ?thesis
      by (simp add: trace_of_def)
  next
    case True
    from startup_wait_run[OF Inr[unfolded hp] True, of net d] obtain ok tr k where
      "startup_wait_for_neo4j net uri N d = Inr (ok, tr)" "1 \<le> k"
      "schedule tr = probes_and_sleeps h p (capped_delay_sequence d (k - 1))"
      by blast
    moreover from this have "probe_count tr = k" "sleeps tr = capped_delay_sequence d (k - 1)"
      using probe_count_schedule[of tr] sleeps_schedule[of tr]
      by (simp_all add: probe_count_probes_and_sleeps sleeps_probes_and_sleeps
          length_capped_delay_sequence)
    ultimately show ?thesis by (simp add: trace_of_def)
  qed
qed

lemma capped_delay_sequence_nth:
  "d \<le> 10 \<Longrightarrow> i < n \<Longrightarrow> capped_delay_sequence d n ! i = spec_delay d i"
proof (induction n arbitrary: d i)
  case 0
  then show ?case by simp
next
  case (Suc n)
  show ?case
  proof (cases i)
    case 0
    then show ?thesis using Suc.prems by (simp add: spec_delay_def)
  next
    case (Suc j)
    have le: "min (d * (12 / 10)) 10 \<le> (10::real)" by simp
    have j: "j < n" using Suc Suc.prems by simp
    have one: "(1::real) \<le> (12 / 10) ^ j" by (rule one_le_power) simp
    have "capped_delay_sequence d (Suc n) ! i = spec_delay (min (d * (12 / 10)) 10) j"
      using Suc Suc.IH[OF le j] by simp
    also have "\<dots> = spec_delay d i"
    proof (cases "d * (12 / 10) \<le> 10")
      case True
      then show ?thesis using Suc by (simp add: spec_delay_def mult.assoc)
    next
      case False
      then have big: "10 < d * (12 / 10)" by simp
      have a: "(10::real) \<le> 10 * (12 / 10) ^ j"
        using mult_left_mono[OF one, of 10] by simp
      have b: "d * (12 / 10) \<le> d * (12 / 10 * (12 / 10) ^ j)"
        using mult_left_mono[OF one, of "d * (12 / 10)"] big by (simp add: mult.assoc)
      have m: "min (d * (12 / 10)) 10 = (10::real)"
        using big by (intro min_absorb2) simp
      have "spec_delay (min (d * (12 / 10)) 10) j = 10"
        unfolding spec_delay_def m using a by (intro min_absorb2)
      moreover have "spec_delay d (Suc j) = 10"
        unfolding spec_delay_def power_Suc using b big
        by (intro min_absorb2) linarith
      ultimately show ?thesis using Suc by simp
    qed
    finally show ?thesis .
  qed
qed

lemma capped_delay_sequence_sorted:
  "0 \<le> d \<Longrightarrow> d \<le> 10 \<Longrightarrow> sorted (capped_delay_sequence d n)"
proof (induction n arbitrary: d)
  case 0
  then show ?case by simp
next
  case (Suc n)
  have d': "0 \<le> min (d * (12 / 10)) 10" "min (d * (12 / 10)) 10 \<le> (10::real)"
    using Suc.prems by auto
  have step: "d \<le> min (d * (12 / 10)) 10" using Suc.prems by auto
  show ?case
  proof (cases n)
    case 0
    then show ?thesis by simp
  next
    case (Suc m)
    with Suc.IH[OF d'] step show ?thesis by auto
  qed
qed

lemma capped_delay_sequence_bounded:
  "d \<le> 10 \<Longrightarrow> x \<in> set (capped_delay_sequence d n) \<Longrightarrow> x \<le> 10"
proof (induction n arbitrary: d)
  case 0
  then show ?case by simp
next
  case (Suc n)
  have le: "min (d * (12 / 10)) 10 \<le> (10::real)" by simp
  from Suc.prems(2) have "x = d \<or> x \<in> set (capped_delay_sequence (min (d * (12 / 10)) 10) n)"
    by simp
  then show ?case
  proof
    assume "x = d"
    then show ?thesis using Suc.prems(1) by simp
  next
    assume "x \<in> set (capped_delay_sequence (min (d * (12 / 10)) 10) n)"
    then show ?thesis by (rule Suc.IH[OF le])
  qed
qed

section \<open>Host and port extraction\<close>

text \<open>
  C1.  The specification's parsing examples, evaluated on the code: a URI with the
  scheme \<open>bolt://\<close> keeps a leading slash in its host, because line 27 of startup.py
  (line 23 of main.py) drops six characters where the scheme has seven.  The example
  without a scheme parses as the specification says.
\<close>

theorem extract_host_port_examples:
  "startup_extract_host_port ''bolt://neo4j:7687'' = Inr (''/neo4j'', 7687) \<and>
   main_extract_host_port ''bolt://neo4j:7687'' = Inr (''/neo4j'', 7687) \<and>
   startup_extract_host_port ''bolt://db'' = Inr (''/db'', 7687) \<and>
   main_extract_host_port ''bolt://db'' = Inr (''/db'', 7687) \<and>
   startup_extract_host_port ''db:9999'' = Inr (''db'', 9999) \<and>
   main_extract_host_port ''db:9999'' = Inr (''db'', 9999)"
  by (simp add: main_extract_eq startup_extract_host_port_def parse_defs)

text \<open>
  C10.  The two copies of \<open>wait_for_neo4j\<close>, in startup.py and in main.py, are equal as
  functions: on every network, URI, \<open>max_retries\<close> and \<open>retry_delay\<close> they raise the
  same exception or return the same result after the same probes, log records and
  sleeps.
\<close>

theorem wait_for_neo4j_copies_equal:
  "main_wait_for_neo4j net uri max_retries retry_delay =
   startup_wait_for_neo4j net uri max_retries retry_delay"
  by (rule main_wait_eq)

section \<open>The backoff delays\<close>

text \<open>
  C4, as the code has it.  The first delay slept is the \<open>retry_delay\<close> the caller
  passed, which line 56 caps only from the second delay on.  With a \<open>retry_delay\<close> of
  20 and three refused attempts the delays slept are 20 and 10: not non-decreasing, and
  the first above the maximum of 10.
\<close>

theorem backoff_first_delay_uncapped:
  "sleeps (trace_of (startup_wait_for_neo4j always_refused ''db:9999'' 3 20)) = [20, 10] \<and>
   \<not> sorted (sleeps (trace_of (startup_wait_for_neo4j always_refused ''db:9999'' 3 20))) \<and>
   \<not> hd (sleeps (trace_of (startup_wait_for_neo4j always_refused ''db:9999'' 3 20))) \<le> 10"
  by (simp add: startup_wait_for_neo4j_def startup_extract_host_port_def parse_defs
      startup_retry_loop.simps startup_attempt_def always_refused_def trace_of_def)

text \<open>
  C4, amended.  When the initial delay is positive and at most the maximum of 10, the
  delays slept by \<open>wait_for_neo4j\<close> (multiplier 1.2 and maximum 10 are fixed in the
  code) are non-decreasing, each is at most 10, and the delay slept after the attempt
  with index \<open>i\<close> is \<open>min(initial_delay * 1.2^i, 10)\<close>; the copy in main.py sleeps the
  same delays.  Delays are exact reals here.
\<close>

theorem backoff_delays_capped_geometric:
  assumes "0 < d" and "d \<le> 10"
  shows "sorted (sleeps (trace_of (startup_wait_for_neo4j net uri N d))) \<and>
         (\<forall>x \<in> set (sleeps (trace_of (startup_wait_for_neo4j net uri N d))). x \<le> 10) \<and>
         (\<forall>i < length (sleeps (trace_of (startup_wait_for_neo4j net uri N d))).
            sleeps (trace_of (startup_wait_for_neo4j net uri N d)) ! i = spec_delay d i) \<and>
         sleeps (trace_of (main_wait_for_neo4j net uri N d)) =
           sleeps (trace_of (startup_wait_for_neo4j net uri N d))"
proof -
  let ?n = "probe_count (trace_of (startup_wait_for_neo4j net uri N d)) - 1"
  have s: "sleeps (trace_of (startup_wait_for_neo4j net uri N d)) = capped_delay_sequence d ?n"
    by (rule startup_wait_sleeps)
  have "sorted (capped_delay_sequence d ?n)"
    using assms by (intro capped_delay_sequence_sorted) auto
  moreover have "\<forall>x \<in> set (capped_delay_sequence d ?n). x \<le> 10"
    using assms(2) capped_delay_sequence_bounded by blast
  moreover have "\<forall>i < length (capped_delay_sequence d ?n).
      capped_delay_sequence d ?n ! i = spec_delay d i"
    using assms(2) by (simp add: capped_delay_sequence_nth length_capped_delay_sequence)
  ultimately show ?thesis
    unfolding s by (simp add: main_wait_eq s)
qed

theorem backoff_delays_capped_geometric_witness:
  "(0::real) < 2 \<and> (2::real) \<le> 10 \<and>
   sleeps (trace_of (startup_wait_for_neo4j always_refused ''db:9999'' 4 2)) =
     [2, 12 / 5, 72 / 25] \<and>
   sorted (sleeps (trace_of (startup_wait_for_neo4j always_refused ''db:9999'' 4 2))) \<and>
   sleeps (trace_of (startup_wait_for_neo4j always_refused ''db:9999'' 4 2)) ! 2 =
     spec_delay 2 2"
proof -
  let ?s = "sleeps (trace_of (startup_wait_for_neo4j always_refused ''db:9999'' 4 2))"
  have run: "?s = [2, 12 / 5, 72 / 25]"
    by (simp add: startup_wait_for_neo4j_def startup_extract_host_port_def parse_defs
        startup_retry_loop.simps startup_attempt_def always_refused_def trace_of_def)
  have pos: "(0::real) < 2" and le: "(2::real) \<le> 10" by simp_all
  note t = backoff_delays_capped_geometric[OF pos le, of always_refused "''db:9999''" 4]
  have srt: "sorted ?s" by (rule t[THEN conjunct1])
  have nth: "\<forall>i < length ?s. ?s ! i = spec_delay 2 i"
    by (rule t[THEN conjunct2, THEN conjunct2, THEN conjunct1])
  have len: "2 < length ?s" by (simp only: run) simp
  have "?s ! 2 = spec_delay 2 2" using nth len by blast
  with run srt pos le show ?thesis by (intro conjI)
qed

section \<open>Attempts and sleeps of the retry loop\<close>

lemma schedule_facts:
  assumes "schedule tr = probes_and_sleeps h p ds"
  shows "probe_count tr = Suc (length ds)" and "sleeps tr = ds"
  using assms probe_count_schedule[of tr] sleeps_schedule[of tr]
  by (simp_all add: probe_count_probes_and_sleeps sleeps_probes_and_sleeps)

text \<open>
  C3.  When the first reachable attempt is attempt \<open>k\<close> (counted from 1) and
  \<open>k \<le> max_retries\<close>, \<open>wait_for_neo4j\<close> returns \<open>True\<close> after exactly \<open>k\<close> probe
  attempts and \<open>k - 1\<close> sleeps, one between each two consecutive attempts; the last
  thing it does besides logging is the \<open>k\<close>-th probe, so there is no further attempt
  and no sleep after it.
\<close>

theorem wait_returns_true_at_first_reachable_attempt:
  assumes ex: "startup_extract_host_port uri = Inr (h, p)"
    and k: "1 \<le> k" "int k \<le> N"
    and fails: "\<forall>i<k - 1. \<not> reachable (net h p i)"
    and ready: "reachable (net h p (k - 1))"
  shows "\<exists>tr. startup_wait_for_neo4j net uri N d = Inr (True, tr) \<and>
           probe_count tr = k \<and>
           length (sleeps tr) = k - 1 \<and>
           schedule tr = probes_and_sleeps h p (capped_delay_sequence d (k - 1)) \<and>
           last (schedule tr) = Probe h p"
proof -
  have N: "1 \<le> N" using k by linarith
  from startup_wait_run[OF ex N, of net d] obtain ok tr j where
    w: "startup_wait_for_neo4j net uri N d = Inr (ok, tr)" and
    j: "1 \<le> j" "int j \<le> N" and
    sch: "schedule tr = probes_and_sleeps h p (capped_delay_sequence d (j - 1))" and
    jf: "\<forall>i<j - 1. \<not> reachable (net h p i)" and
    jok: "ok \<longleftrightarrow> reachable (net h p (j - 1))" and
    jN: "\<not> ok \<longrightarrow> int j = N"
    by blast
  have "j = k"
  proof (rule ccontr)
    assume "j \<noteq> k"
    then consider "j - 1 < k - 1" | "k - 1 < j - 1" using j(1) k(1) by linarith
    then show False
    proof cases
      case 1
      then have "\<not> reachable (net h p (j - 1))" using fails by blast
      then have "int j = N" using jok jN by blast
      then show False using 1 k(2) by linarith
    next
      case 2
      then show False using jf ready by blast
    qed
  qed
  then have "ok" using jok ready by simp
  moreover have "probe_count tr = k" "length (sleeps tr) = k - 1"
    using schedule_facts[OF sch] \<open>j = k\<close> k(1)
    by (simp_all add: length_capped_delay_sequence)
  ultimately show ?thesis
    using w sch \<open>j = k\<close> by (simp add: last_probes_and_sleeps)
qed

text \<open>
  The scenario of the specification: unreachable on the first three attempts, reachable
  on the fourth, \<open>max_retries = 30\<close>; exactly four probe attempts.
\<close>

theorem wait_true_at_fourth_attempt:
  "result_of (startup_wait_for_neo4j ready_on_fourth ''db:9999'' 30 2) = Some True \<and>
   probe_count (trace_of (startup_wait_for_neo4j ready_on_fourth ''db:9999'' 30 2)) = 4 \<and>
   length (sleeps (trace_of (startup_wait_for_neo4j ready_on_fourth ''db:9999'' 30 2))) = 3 \<and>
   last (schedule (trace_of (startup_wait_for_neo4j ready_on_fourth ''db:9999'' 30 2))) =
     Probe ''db'' 9999"
proof -
  have ex: "startup_extract_host_port ''db:9999'' = Inr (''db'', 9999)"
    by (simp add: startup_extract_host_port_def parse_defs)
  have k: "1 \<le> (4::nat)" "int 4 \<le> 30" by simp_all
  have fails: "\<forall>i<4 - 1. \<not> reachable (ready_on_fourth ''db'' 9999 i)"
    by (simp add: ready_on_fourth_def reachable_def)
  have ready: "reachable (ready_on_fourth ''db'' 9999 (4 - 1))"
    by (simp add: ready_on_fourth_def reachable_def)
  from wait_returns_true_at_first_reachable_attempt
         [of "''db:9999''" "''db''" 9999 4 30 ready_on_fourth 2] ex k fails ready
  obtain tr where "startup_wait_for_neo4j ready_on_fourth ''db:9999'' 30 2 = Inr (True, tr)"
    "probe_count tr = 4" "length (sleeps tr) = 4 - 1" "last (schedule tr) = Probe ''db'' 9999"
    by blast
  then show ?thesis by (simp add: result_of_def trace_of_def)
qed

text \<open>
  C2, as the code has it.  The number of sleeps is not \<open>max_retries - 1\<close> on every
  run: with \<open>max_retries = 3\<close> and a database that answers the first attempt there is
  one attempt and no sleep.
\<close>

theorem wait_sleeps_fewer_on_early_success:
  "result_of (startup_wait_for_neo4j always_reachable ''db:9999'' 3 2) = Some True \<and>
   probe_count (trace_of (startup_wait_for_neo4j always_reachable ''db:9999'' 3 2)) = 1 \<and>
   length (sleeps (trace_of (startup_wait_for_neo4j always_reachable ''db:9999'' 3 2))) = 0 \<and>
   length (sleeps (trace_of (startup_wait_for_neo4j always_reachable ''db:9999'' 3 2))) \<noteq> 3 - 1"
  by (simp add: startup_wait_for_neo4j_def startup_extract_host_port_def parse_defs
      startup_retry_loop.simps startup_attempt_def always_reachable_def trace_of_def
      result_of_def)

text \<open>
  C2, amended.  With \<open>max_retries = N \<ge> 1\<close>, \<open>wait_for_neo4j\<close> makes at least one and
  at most \<open>N\<close> probe attempts and sleeps exactly once between each two consecutive
  attempts and nowhere else, that is one time fewer than it probes; the delays are the
  successive values of \<open>retry_delay\<close>.  When every attempt fails it returns \<open>False\<close>
  after exactly \<open>N\<close> attempts and \<open>N - 1\<close> sleeps, and the total wait is the sum of
  the first \<open>N - 1\<close> values of \<open>retry_delay\<close> under the capped update of line 56.
\<close>

theorem wait_attempts_and_sleeps:
  assumes ex: "startup_extract_host_port uri = Inr (h, p)" and N: "1 \<le> N"
  shows "\<exists>ok tr. startup_wait_for_neo4j net uri N d = Inr (ok, tr) \<and>
           1 \<le> probe_count tr \<and> int (probe_count tr) \<le> N \<and>
           schedule tr = probes_and_sleeps h p (sleeps tr) \<and>
           length (sleeps tr) = probe_count tr - 1 \<and>
           sleeps tr = capped_delay_sequence d (probe_count tr - 1) \<and>
           ((\<forall>i. int i < N \<longrightarrow> \<not> reachable (net h p i)) \<longrightarrow>
              \<not> ok \<and> int (probe_count tr) = N \<and> int (length (sleeps tr)) = N - 1 \<and>
              sum_list (sleeps tr) = sum_list (capped_delay_sequence d (nat (N - 1))))"
proof -
  from startup_wait_run[OF ex N, of net d] obtain ok tr j where
    w: "startup_wait_for_neo4j net uri N d = Inr (ok, tr)" and
    j: "1 \<le> j" "int j \<le> N" and
    sch: "schedule tr = probes_and_sleeps h p (capped_delay_sequence d (j - 1))" and
    jok: "ok \<longleftrightarrow> reachable (net h p (j - 1))" and
    jN: "\<not> ok \<longrightarrow> int j = N"
    by blast
  have pc: "probe_count tr = j" and sl: "sleeps tr = capped_delay_sequence d (j - 1)"
    using schedule_facts[OF sch] j(1) by (simp_all add: length_capped_delay_sequence)
  have len: "length (sleeps tr) = j - 1" by (simp add: sl length_capped_delay_sequence)
  have allfail: "\<not> ok \<and> int (probe_count tr) = N \<and> int (length (sleeps tr)) = N - 1 \<and>
      sum_list (sleeps tr) = sum_list (capped_delay_sequence d (nat (N - 1)))"
    if a: "\<forall>i. int i < N \<longrightarrow> \<not> reachable (net h p i)"
  proof -
    have "int (j - 1) < N" using j by linarith
    then have "\<not> ok" using a jok by blast
    then have jN': "int j = N" using jN by blast
    then have "j - 1 = nat (N - 1)" by linarith
    then show ?thesis using \<open>\<not> ok\<close> jN' pc len sl j(1) by simp
  qed
  show ?thesis
    using w j pc sl len sch allfail by (intro exI[of _ ok] exI[of _ tr]) simp
qed

theorem wait_attempts_and_sleeps_witness:
  "(1::int) \<le> 3 \<and>
   startup_extract_host_port ''db:9999'' = Inr (''db'', 9999) \<and>
   result_of (startup_wait_for_neo4j always_refused ''db:9999'' 3 2) = Some False \<and>
   probe_count (trace_of (startup_wait_for_neo4j always_refused ''db:9999'' 3 2)) = 3 \<and>
   length (sleeps (trace_of (startup_wait_for_neo4j always_refused ''db:9999'' 3 2))) = 2 \<and>
   sum_list (sleeps (trace_of (startup_wait_for_neo4j always_refused ''db:9999'' 3 2))) =
     2 + 12 / 5"
proof -
  have ex: "startup_extract_host_port ''db:9999'' = Inr (''db'', 9999)"
    by (simp add: startup_extract_host_port_def parse_defs)
  have N: "(1::int) \<le> 3" by simp
  have fails: "\<forall>i. int i < 3 \<longrightarrow> \<not> reachable (always_refused ''db'' 9999 i)"
    by (simp add: always_refused_def reachable_def)
  have seq: "sum_list (capped_delay_sequence 2 (nat (3 - 1))) = 2 + 12 / 5"
    by (simp add: numeral_2_eq_2)
  from wait_attempts_and_sleeps[OF ex N, of always_refused 2]
  obtain ok tr where
    w: "startup_wait_for_neo4j always_refused ''db:9999'' 3 2 = Inr (ok, tr)" and
    imp: "(\<forall>i. int i < 3 \<longrightarrow> \<not> reachable (always_refused ''db'' 9999 i)) \<longrightarrow>
       \<not> ok \<and> int (probe_count tr) = 3 \<and> int (length (sleeps tr)) = 3 - 1 \<and>
       sum_list (sleeps tr) = sum_list (capped_delay_sequence 2 (nat (3 - 1)))"
    by blast
  from imp fails have "\<not> ok \<and> int (probe_count tr) = 3 \<and> int (length (sleeps tr)) = 3 - 1 \<and>
       sum_list (sleeps tr) = sum_list (capped_delay_sequence 2 (nat (3 - 1)))"
    by (rule mp)
  then show ?thesis using w ex seq by (simp add: result_of_def trace_of_def)
qed

section \<open>Exceptions leaving the retry loop\<close>

lemma startup_extract_raises_ValueError:
  "startup_extract_host_port uri = Inl e \<Longrightarrow> e = ValueError"
  by (auto simp: startup_extract_host_port_def py_int_def Let_def
      split: if_splits sum.splits)

text \<open>
  C6, as the code has it.  \<open>int(port_str)\<close> stands before the loop and outside every
  \<open>try\<close>: a URI whose text after the first colon is not a decimal integer makes both
  copies of \<open>wait_for_neo4j\<close> raise \<open>ValueError\<close> to the caller.
\<close>

theorem wait_for_neo4j_raises_on_bad_port:
  "startup_wait_for_neo4j always_refused ''bolt://db:abc'' 30 2 = Inl ValueError \<and>
   main_wait_for_neo4j always_refused ''bolt://db:abc'' 30 2 = Inl ValueError"
  by (simp add: main_wait_eq startup_wait_for_neo4j_def startup_extract_host_port_def
      parse_defs)

text \<open>
  C6, amended.  For a URI whose host and port can be extracted, both copies of
  \<open>wait_for_neo4j\<close> return a boolean whatever the probes do (an error number or an
  exception raised by a socket call), and \<open>False\<close> when no attempt is reachable; an
  exception raised inside an attempt is caught and gives a WARNING record for that
  attempt.  The only exception that leaves the function is the \<open>ValueError\<close> of the
  port conversion.
\<close>

theorem wait_for_neo4j_raises_only_from_port:
  "(startup_extract_host_port uri = Inr (h, p) \<longrightarrow>
      (\<exists>ok tr. startup_wait_for_neo4j net uri N d = Inr (ok, tr) \<and>
               main_wait_for_neo4j net uri N d = Inr (ok, tr) \<and>
               ((\<forall>i. int i < N \<longrightarrow> \<not> reachable (net h p i)) \<longrightarrow> \<not> ok))) \<and>
   (startup_extract_host_port uri = Inl e \<longrightarrow>
      e = ValueError \<and> startup_wait_for_neo4j net uri N d = Inl ValueError \<and>
      main_wait_for_neo4j net uri N d = Inl ValueError) \<and>
   startup_attempt (Raised e') h p a N =
     (False, [Probe h p,
              Log WARNING ''Connection attempt failed (attempt {attempt + 1}/{max_retries}): {e}''
                [AInt (a + 1), AInt N, AExc e']])"
proof (intro conjI impI)
  assume ex: "startup_extract_host_port uri = Inr (h, p)"
  show "\<exists>ok tr. startup_wait_for_neo4j net uri N d = Inr (ok, tr) \<and>
               main_wait_for_neo4j net uri N d = Inr (ok, tr) \<and>
               ((\<forall>i. int i < N \<longrightarrow> \<not> reachable (net h p i)) \<longrightarrow> \<not> ok)"
  proof (cases "1 \<le> N")
    case False
    from startup_wait_low[OF ex False, of net d] show ?thesis
      by (intro exI[of _ False] exI[of _ "[Log INFO ''Waiting for Neo4j at {host}:{port}''
            [AStr h, AInt p],
          Log ERROR ''Neo4j failed to become ready after all retries'' []]"])
        (simp add: main_wait_eq)
  next
    case True
    from startup_wait_run[OF ex True, of net d] obtain ok tr k where
      w: "startup_wait_for_neo4j net uri N d = Inr (ok, tr)" and
      k: "1 \<le> k" "int k \<le> N" and
      ok: "ok \<longleftrightarrow> reachable (net h p (k - 1))"
      by blast
    have "int (k - 1) < N" using k by linarith
    then have "(\<forall>i. int i < N \<longrightarrow> \<not> reachable (net h p i)) \<longrightarrow> \<not> ok"
      using ok by blast
    with w show ?thesis by (simp add: main_wait_eq)
  qed
next
  assume ex: "startup_extract_host_port uri = Inl e"
  then show "e = ValueError" by (rule startup_extract_raises_ValueError)
  with ex show "startup_wait_for_neo4j net uri N d = Inl ValueError"
    by (simp add: startup_wait_for_neo4j_def)
  then show "main_wait_for_neo4j net uri N d = Inl ValueError"
    by (simp add: main_wait_eq)
next
  show "startup_attempt (Raised e') h p a N =
     (False, [Probe h p,
              Log WARNING ''Connection attempt failed (attempt {attempt + 1}/{max_retries}): {e}''
                [AInt (a + 1), AInt N, AExc e']])"
    by (simp add: startup_attempt_def)
qed

theorem wait_for_neo4j_raises_only_from_port_witness:
  "startup_extract_host_port ''db:9999'' = Inr (''db'', 9999) \<and>
   result_of (startup_wait_for_neo4j dns_failure ''db:9999'' 3 2) = Some False \<and>
   result_of (main_wait_for_neo4j dns_failure ''db:9999'' 3 2) = Some False \<and>
   startup_extract_host_port ''db:abc'' = Inl ValueError \<and>
   startup_wait_for_neo4j dns_failure ''db:abc'' 3 2 = Inl ValueError"
proof -
  have ex: "startup_extract_host_port ''db:9999'' = Inr (''db'', 9999)"
    by (simp add: startup_extract_host_port_def parse_defs)
  have bad: "startup_extract_host_port ''db:abc'' = Inl ValueError"
    by (simp add: startup_extract_host_port_def parse_defs)
  have fails: "\<forall>i. int i < 3 \<longrightarrow> \<not> reachable (dns_failure ''db'' 9999 i)"
    by (simp add: dns_failure_def reachable_def)
  note t1 = wait_for_neo4j_raises_only_from_port[of "''db:9999''" "''db''" 9999 dns_failure 3 2,
      THEN conjunct1, rule_format, OF ex]
  note t2 = wait_for_neo4j_raises_only_from_port[of "''db:abc''" "''db''" 9999 dns_failure 3 2
      ValueError, THEN conjunct2, THEN conjunct1, rule_format, OF bad]
  from t1 obtain ok tr where
    r: "startup_wait_for_neo4j dns_failure ''db:9999'' 3 2 = Inr (ok, tr)"
      "main_wait_for_neo4j dns_failure ''db:9999'' 3 2 = Inr (ok, tr)" and
    imp: "(\<forall>i. int i < 3 \<longrightarrow> \<not> reachable (dns_failure ''db'' 9999 i)) \<longrightarrow> \<not> ok"
    by blast
  from imp fails have "\<not> ok" by (rule mp)
  with r t2 ex bad show ?thesis by (simp add: result_of_def)
qed

section \<open>The verification script and the health check\<close>

lemma strip_Nil_iff: "strip s = [] \<longleftrightarrow> list_all py_isspace s"
proof -
  have "(\<forall>x\<in>set (dropWhile py_isspace s). py_isspace x) \<longleftrightarrow> dropWhile py_isspace s = []"
  proof
    assume a: "\<forall>x\<in>set (dropWhile py_isspace s). py_isspace x"
    show "dropWhile py_isspace s = []"
    proof (rule ccontr)
      assume ne: "dropWhile py_isspace s \<noteq> []"
      then have "\<not> py_isspace (hd (dropWhile py_isspace s))" by (rule hd_dropWhile)
      moreover have "hd (dropWhile py_isspace s) \<in> set (dropWhile py_isspace s)"
        using ne by (rule hd_in_set)
      ultimately show False using a by blast
    qed
  next
    assume e: "dropWhile py_isspace s = []"
    show "\<forall>x\<in>set (dropWhile py_isspace s). py_isspace x" unfolding e by simp
  qed
  also have "\<dots> \<longleftrightarrow> (\<forall>x\<in>set s. py_isspace x)"
    by (rule dropWhile_eq_Nil_conv)
  finally have key: "(\<forall>x\<in>set (dropWhile py_isspace s). py_isspace x) \<longleftrightarrow>
      (\<forall>x\<in>set s. py_isspace x)" .
  have "strip s = [] \<longleftrightarrow> (\<forall>x\<in>set (dropWhile py_isspace s). py_isspace x)"
    by (simp add: strip_def)
  with key show ?thesis unfolding list_all_iff by blast
qed

lemma env_var_is_set_iff: "env_var_is_set environ var = present_and_non_blank environ var"
  by (simp add: env_var_is_set_def present_and_non_blank_def strip_Nil_iff split: option.splits)

lemma check_server_health_eq:
  "\<exists>tr. check_server_health get url = Inr (get (url @ ''/healthcheck'') = Inr 200, tr)"
  by (simp add: check_server_health_def try_except_def split: sum.splits)

lemma check_neo4j_connection_eq:
  "\<exists>tr. check_neo4j_connection uri user password = Inr (startswith uri ''bolt://'', tr)"
  by (simp add: check_neo4j_connection_def try_except_def)

lemma check_api_endpoints_eq:
  "\<exists>tr. check_api_endpoints get base =
     Inr ([(''root'', get 0 (base @ ''/'') = Inr 200),
           (''healthcheck'', get 1 (base @ ''/healthcheck'') = Inr 200)], tr)"
  by (simp add: check_api_endpoints_def try_except_def split: sum.splits)

lemma check_environment_variables_eq:
  "fst (check_environment_variables environ) =
     [(''OPENAI_API_KEY'', env_var_is_set environ ''OPENAI_API_KEY''),
      (''NEO4J_USER'', env_var_is_set environ ''NEO4J_USER''),
      (''NEO4J_PASSWORD'', env_var_is_set environ ''NEO4J_PASSWORD''),
      (''MODEL_NAME'', env_var_is_set environ ''MODEL_NAME''),
      (''EMBEDDING_MODEL_NAME'', env_var_is_set environ ''EMBEDDING_MODEL_NAME''),
      (''SEMAPHORE_LIMIT'', env_var_is_set environ ''SEMAPHORE_LIMIT'')]"
  by (simp add: check_environment_variables_def split: prod.splits)

lemma verify_main_result:
  "\<exists>v. verify_main environ get = Inr v \<and>
     required_env_ok v =
       (env_var_is_set environ ''OPENAI_API_KEY'' \<and> env_var_is_set environ ''NEO4J_USER'' \<and>
        env_var_is_set environ ''NEO4J_PASSWORD'') \<and>
     neo4j_ok v = startswith (getenv_default environ ''NEO4J_URI'' ''bolt://neo4j:7687'') ''bolt://'' \<and>
     server_health v = (get 0 ''http://localhost:8000/healthcheck'' = Inr 200) \<and>
     api_ok v = (get 1 ''http://localhost:8000/'' = Inr 200 \<and>
                 get 2 ''http://localhost:8000/healthcheck'' = Inr 200) \<and>
     overall_ok v = (required_env_ok v \<and> neo4j_ok v \<and> server_health v \<and> api_ok v) \<and>
     return_value v = (if overall_ok v then 0 else 1) \<and>
     report v \<noteq> []"
proof -
  obtain env_check env_log where
    env: "check_environment_variables environ = (env_check, env_log)" by force
  have env_check: "env_check =
     [(''OPENAI_API_KEY'', env_var_is_set environ ''OPENAI_API_KEY''),
      (''NEO4J_USER'', env_var_is_set environ ''NEO4J_USER''),
      (''NEO4J_PASSWORD'', env_var_is_set environ ''NEO4J_PASSWORD''),
      (''MODEL_NAME'', env_var_is_set environ ''MODEL_NAME''),
      (''EMBEDDING_MODEL_NAME'', env_var_is_set environ ''EMBEDDING_MODEL_NAME''),
      (''SEMAPHORE_LIMIT'', env_var_is_set environ ''SEMAPHORE_LIMIT'')]"
    using check_environment_variables_eq[of environ] env by simp
  obtain neo4j_log where neo: "check_neo4j_connection
      (getenv_default environ ''NEO4J_URI'' ''bolt://neo4j:7687'')
      (getenv_default environ ''NEO4J_USER'' ''neo4j'')
      (getenv_default environ ''NEO4J_PASSWORD'' []) =
      Inr (startswith (getenv_default environ ''NEO4J_URI'' ''bolt://neo4j:7687'') ''bolt://'',
           neo4j_log)"
    using check_neo4j_connection_eq by blast
  obtain health_log where health: "check_server_health (get 0) ''http://localhost:8000'' =
      Inr (get 0 (''http://localhost:8000'' @ ''/healthcheck'') = Inr 200, health_log)"
    using check_server_health_eq by blast
  obtain api_log where api: "check_api_endpoints (\<lambda>i. get (Suc i)) ''http://localhost:8000'' =
      Inr ([(''root'', get (Suc 0) (''http://localhost:8000'' @ ''/'') = Inr 200),
            (''healthcheck'', get (Suc 1) (''http://localhost:8000'' @ ''/healthcheck'') = Inr 200)],
           api_log)"
    using check_api_endpoints_eq[of "\<lambda>i. get (Suc i)" "''http://localhost:8000''"] by blast
  show ?thesis
    by (simp add: verify_main_def Let_def env neo health api env_check dict_get_def numeral_2_eq_2)
qed

lemma verify_script_result:
  "verify_main environ get = Inr v \<Longrightarrow>
   verify_script environ get = (SysExit (return_value v), report v)"
  by (simp add: verify_script_def)

text \<open>
  C5.  \<open>main\<close> of verify_deployment.py always returns, and its \<open>overall_ok\<close> is the
  conjunction of: each of \<open>OPENAI_API_KEY\<close>, \<open>NEO4J_USER\<close>, \<open>NEO4J_PASSWORD\<close> present and
  not blank; the Neo4j URI (\<open>NEO4J_URI\<close> or its default) starting with \<open>bolt://\<close>; the
  liveness request answered with 200; the root and the healthcheck endpoint requests
  answered with 200.  So it is false as soon as one required variable is missing or
  blank, whatever the network does, and setting or unsetting an optional variable
  never changes it.
\<close>

theorem verify_overall_is_conjunction:
  "\<exists>v. verify_main environ get = Inr v \<and>
     overall_ok v =
       ((present_and_non_blank environ ''OPENAI_API_KEY'' \<and>
         present_and_non_blank environ ''NEO4J_USER'' \<and>
         present_and_non_blank environ ''NEO4J_PASSWORD'') \<and>
        startswith (getenv_default environ ''NEO4J_URI'' ''bolt://neo4j:7687'') ''bolt://'' \<and>
        get 0 ''http://localhost:8000/healthcheck'' = Inr 200 \<and>
        (get 1 ''http://localhost:8000/'' = Inr 200 \<and>
         get 2 ''http://localhost:8000/healthcheck'' = Inr 200)) \<and>
     (\<not> present_and_non_blank environ ''OPENAI_API_KEY'' \<or>
      \<not> present_and_non_blank environ ''NEO4J_USER'' \<or>
      \<not> present_and_non_blank environ ''NEO4J_PASSWORD'' \<longrightarrow> \<not> overall_ok v) \<and>
     (\<forall>var \<in> {''MODEL_NAME'', ''EMBEDDING_MODEL_NAME'', ''SEMAPHORE_LIMIT''}. \<forall>x.
        \<exists>v'. verify_main (environ(var := x)) get = Inr v' \<and> overall_ok v' = overall_ok v)"
proof -
  from verify_main_result[of environ get] obtain v where
    v: "verify_main environ get = Inr v" and
    ov: "overall_ok v =
       ((present_and_non_blank environ ''OPENAI_API_KEY'' \<and>
         present_and_non_blank environ ''NEO4J_USER'' \<and>
         present_and_non_blank environ ''NEO4J_PASSWORD'') \<and>
        startswith (getenv_default environ ''NEO4J_URI'' ''bolt://neo4j:7687'') ''bolt://'' \<and>
        get 0 ''http://localhost:8000/healthcheck'' = Inr 200 \<and>
        (get 1 ''http://localhost:8000/'' = Inr 200 \<and>
         get 2 ''http://localhost:8000/healthcheck'' = Inr 200))"
    by (auto simp: env_var_is_set_iff)
  have opt: "\<exists>v'. verify_main (environ(var := x)) get = Inr v' \<and> overall_ok v' = overall_ok v"
    if "var \<in> {''MODEL_NAME'', ''EMBEDDING_MODEL_NAME'', ''SEMAPHORE_LIMIT''}" for var x
  proof -
    from verify_main_result[of "environ(var := x)" get] obtain v' where
      v': "verify_main (environ(var := x)) get = Inr v'" and
      ov': "overall_ok v' =
       ((present_and_non_blank (environ(var := x)) ''OPENAI_API_KEY'' \<and>
         present_and_non_blank (environ(var := x)) ''NEO4J_USER'' \<and>
         present_and_non_blank (environ(var := x)) ''NEO4J_PASSWORD'') \<and>
        startswith (getenv_default (environ(var := x)) ''NEO4J_URI'' ''bolt://neo4j:7687'')
          ''bolt://'' \<and>
        get 0 ''http://localhost:8000/healthcheck'' = Inr 200 \<and>
        (get 1 ''http://localhost:8000/'' = Inr 200 \<and>
         get 2 ''http://localhost:8000/healthcheck'' = Inr 200))"
      by (auto simp: env_var_is_set_iff)
    have "overall_ok v' = overall_ok v"
      unfolding ov ov' using that
      by (auto simp: present_and_non_blank_def getenv_default_def)
    with v' show ?thesis by blast
  qed
  show ?thesis
    using v ov opt by (intro exI[of _ v]) blast
qed

theorem verify_overall_is_conjunction_witness:
  "(\<exists>v. verify_main blank_password_env all_ok = Inr v \<and> \<not> overall_ok v) \<and>
   (\<exists>v. verify_main full_env all_ok = Inr v \<and> overall_ok v) \<and>
   (\<exists>v. verify_main (full_env(''MODEL_NAME'' := None)) all_ok = Inr v \<and> overall_ok v)"
proof -
  have blank: "\<not> present_and_non_blank blank_password_env ''NEO4J_PASSWORD''"
    by (simp add: present_and_non_blank_def blank_password_env_def py_isspace_def)
  have full: "present_and_non_blank full_env ''OPENAI_API_KEY''"
    "present_and_non_blank full_env ''NEO4J_USER''"
    "present_and_non_blank full_env ''NEO4J_PASSWORD''"
    "startswith (getenv_default full_env ''NEO4J_URI'' ''bolt://neo4j:7687'') ''bolt://''"
    by (simp_all add: present_and_non_blank_def full_env_def py_isspace_def
        getenv_default_def startswith_def)
  from verify_overall_is_conjunction[of blank_password_env all_ok] blank
  have one: "\<exists>v. verify_main blank_password_env all_ok = Inr v \<and> \<not> overall_ok v"
    by blast
  from verify_overall_is_conjunction[of full_env all_ok] obtain v where
    v: "verify_main full_env all_ok = Inr v" "overall_ok v" and
    opt: "\<forall>var \<in> {''MODEL_NAME'', ''EMBEDDING_MODEL_NAME'', ''SEMAPHORE_LIMIT''}. \<forall>x.
        \<exists>v'. verify_main (full_env(var := x)) all_ok = Inr v' \<and> overall_ok v' = overall_ok v"
    using full by (auto simp: all_ok_def)
  from opt have "\<exists>v'. verify_main (full_env(''MODEL_NAME'' := None)) all_ok = Inr v' \<and>
      overall_ok v' = overall_ok v"
    by blast
  with one v show ?thesis by blast
qed

text \<open>
  C8.  The health-check script exits with 0 when the request to \<open>/healthcheck\<close> is
  answered with 200 and with 1 on any other status and on any exception; the
  verification script exits with 0 when \<open>overall_ok\<close> is true and with 1 otherwise.
\<close>

theorem script_exit_codes:
  "fst (healthcheck_script urlopen) =
     SysExit (if urlopen ''http://localhost:8000/healthcheck'' = Inr 200 then 0 else 1) \<and>
   (\<exists>v. verify_main environ get = Inr v \<and>
        fst (verify_script environ get) = SysExit (if overall_ok v then 0 else 1))"
proof
  show "fst (healthcheck_script urlopen) =
     SysExit (if urlopen ''http://localhost:8000/healthcheck'' = Inr 200 then 0 else 1)"
    by (simp add: healthcheck_script_def check_health_def try_except_def split: sum.splits)
next
  from verify_main_result[of environ get] obtain v where
    "verify_main environ get = Inr v" "return_value v = (if overall_ok v then 0 else 1)"
    by blast
  then show "\<exists>v. verify_main environ get = Inr v \<and>
        fst (verify_script environ get) = SysExit (if overall_ok v then 0 else 1)"
    by (auto simp: verify_script_result)
qed

theorem script_exit_codes_witness:
  "fst (healthcheck_script (all_ok 0)) = SysExit 0 \<and>
   fst (healthcheck_script (all_down 0)) = SysExit 1 \<and>
   fst (healthcheck_script (all_unavailable 0)) = SysExit 1 \<and>
   fst (verify_script full_env all_ok) = SysExit 0 \<and>
   fst (verify_script full_env all_unavailable) = SysExit 1"
proof -
  have h: "fst (healthcheck_script (all_ok 0)) = SysExit 0"
    "fst (healthcheck_script (all_down 0)) = SysExit 1"
    "fst (healthcheck_script (all_unavailable 0)) = SysExit 1"
    using script_exit_codes[of "all_ok 0" full_env all_ok]
      script_exit_codes[of "all_down 0" full_env all_ok]
      script_exit_codes[of "all_unavailable 0" full_env all_ok]
    by (simp_all add: all_ok_def all_down_def all_unavailable_def)
  have full: "env_var_is_set full_env ''OPENAI_API_KEY''"
    "env_var_is_set full_env ''NEO4J_USER''"
    "env_var_is_set full_env ''NEO4J_PASSWORD''"
    "startswith (getenv_default full_env ''NEO4J_URI'' ''bolt://neo4j:7687'') ''bolt://''"
    by (simp_all add: env_var_is_set_def strip_def full_env_def py_isspace_def
        getenv_default_def startswith_def)
  from script_exit_codes[of "all_ok 0" full_env all_ok] obtain v :: verification where
    v: "verify_main full_env all_ok = Inr v"
      "fst (verify_script full_env all_ok) = SysExit (if overall_ok v then 0 else 1)"
    by blast
  from verify_main_result[of full_env all_ok] v(1) full have "overall_ok v"
    by (auto simp: all_ok_def)
  with v(2) have ok: "fst (verify_script full_env all_ok) = SysExit 0" by simp
  from script_exit_codes[of "all_ok 0" full_env all_unavailable] obtain w :: verification where
    w: "verify_main full_env all_unavailable = Inr w"
      "fst (verify_script full_env all_unavailable) = SysExit (if overall_ok w then 0 else 1)"
    by blast
  from verify_main_result[of full_env all_unavailable] w(1) have "\<not> overall_ok w"
    by (auto simp: all_unavailable_def)
  with w(2) have "fst (verify_script full_env all_unavailable) = SysExit 1" by simp
  with h ok show ?thesis by blast
qed

text \<open>
  C9.  No exception of an HTTP request leaves a check of the verification script: the
  liveness check and each of the two endpoint checks return \<open>True\<close> exactly when their
  own request is answered with 200, and \<open>False\<close> when it raises, without touching the
  result of the other checks.  Hence \<open>main\<close> always returns, with a non-empty report
  and the exit status 0 or 1; when every request raises, the status is 1.
\<close>

theorem http_exceptions_become_false:
  "(\<exists>tr. check_server_health get url = Inr (get (url @ ''/healthcheck'') = Inr 200, tr)) \<and>
   (get (url @ ''/healthcheck'') = Inl e \<longrightarrow>
      (\<exists>tr. check_server_health get url = Inr (False, tr))) \<and>
   (\<exists>tr. check_api_endpoints gets base =
           Inr ([(''root'', gets 0 (base @ ''/'') = Inr 200),
                 (''healthcheck'', gets 1 (base @ ''/healthcheck'') = Inr 200)], tr)) \<and>
   (gets 0 (base @ ''/'') = Inl e \<longrightarrow>
      (\<exists>tr. check_api_endpoints gets base =
           Inr ([(''root'', False),
                 (''healthcheck'', gets 1 (base @ ''/healthcheck'') = Inr 200)], tr))) \<and>
   (gets 1 (base @ ''/healthcheck'') = Inl e \<longrightarrow>
      (\<exists>tr. check_api_endpoints gets base =
           Inr ([(''root'', gets 0 (base @ ''/'') = Inr 200),
                 (''healthcheck'', False)], tr))) \<and>
   (\<exists>v. verify_main environ gets = Inr v \<and> report v \<noteq> [] \<and>
        verify_script environ gets = (SysExit (return_value v), report v) \<and>
        (return_value v = 0 \<or> return_value v = 1) \<and>
        ((\<forall>i u. \<exists>e. gets i u = Inl e) \<longrightarrow>
           \<not> server_health v \<and> \<not> api_ok v \<and> \<not> overall_ok v \<and> return_value v = 1))"
proof (intro conjI impI)
  show h: "\<exists>tr. check_server_health get url = Inr (get (url @ ''/healthcheck'') = Inr 200, tr)"
    by (rule check_server_health_eq)
  show "\<exists>tr. check_server_health get url = Inr (False, tr)"
    if "get (url @ ''/healthcheck'') = Inl e"
    using h that by simp
  show a: "\<exists>tr. check_api_endpoints gets base =
           Inr ([(''root'', gets 0 (base @ ''/'') = Inr 200),
                 (''healthcheck'', gets 1 (base @ ''/healthcheck'') = Inr 200)], tr)"
    by (rule check_api_endpoints_eq)
  show "\<exists>tr. check_api_endpoints gets base =
           Inr ([(''root'', False),
                 (''healthcheck'', gets 1 (base @ ''/healthcheck'') = Inr 200)], tr)"
    if "gets 0 (base @ ''/'') = Inl e"
    using a that by simp
  show "\<exists>tr. check_api_endpoints gets base =
           Inr ([(''root'', gets 0 (base @ ''/'') = Inr 200),
                 (''healthcheck'', False)], tr)"
    if "gets 1 (base @ ''/healthcheck'') = Inl e"
    using a that by simp
  from verify_main_result[of environ gets] obtain v where
    v: "verify_main environ gets = Inr v" and
    sh: "server_health v = (gets 0 ''http://localhost:8000/healthcheck'' = Inr 200)" and
    ap: "api_ok v = (gets 1 ''http://localhost:8000/'' = Inr 200 \<and>
                 gets 2 ''http://localhost:8000/healthcheck'' = Inr 200)" and
    ov: "overall_ok v = (required_env_ok v \<and> neo4j_ok v \<and> server_health v \<and> api_ok v)" and
    rv: "return_value v = (if overall_ok v then 0 else 1)" and
    rp: "report v \<noteq> []"
    by blast
  have down: "\<not> server_health v \<and> \<not> api_ok v \<and> \<not> overall_ok v \<and> return_value v = 1"
    if d: "\<forall>i u. \<exists>e. gets i u = Inl e"
  proof -
    from d obtain e0 where "gets 0 ''http://localhost:8000/healthcheck'' = Inl e0" by blast
    then have "\<not> server_health v" by (simp add: sh)
    moreover from d obtain e1 where "gets 1 ''http://localhost:8000/'' = Inl e1" by blast
    then have "\<not> api_ok v" by (simp add: ap)
    ultimately show ?thesis by (simp add: ov rv)
  qed
  show "\<exists>v. verify_main environ gets = Inr v \<and> report v \<noteq> [] \<and>
        verify_script environ gets = (SysExit (return_value v), report v) \<and>
        (return_value v = 0 \<or> return_value v = 1) \<and>
        ((\<forall>i u. \<exists>e. gets i u = Inl e) \<longrightarrow>
           \<not> server_health v \<and> \<not> api_ok v \<and> \<not> overall_ok v \<and> return_value v = 1)"
    using v rp rv down verify_script_result[OF v]
    by (intro exI[of _ v]) auto
qed

theorem http_exceptions_become_false_witness:
  "(\<exists>tr. check_server_health (all_down 0) ''http://localhost:8000'' = Inr (False, tr)) \<and>
   (\<exists>tr. check_api_endpoints all_down ''http://localhost:8000'' =
           Inr ([(''root'', False), (''healthcheck'', False)], tr)) \<and>
   fst (verify_script full_env all_down) = SysExit 1"
proof -
  note t = http_exceptions_become_false[of "all_down 0" "''http://localhost:8000''" ClientError
      all_down "''http://localhost:8000''" full_env]
  have d0: "all_down 0 (''http://localhost:8000'' @ ''/healthcheck'') = Inl ClientError"
    and d1: "all_down 0 (''http://localhost:8000'' @ ''/'') = Inl ClientError"
    and d2: "all_down 1 (''http://localhost:8000'' @ ''/healthcheck'') = Inl ClientError"
    and dall: "\<forall>i u. \<exists>e. all_down i u = Inl e"
    by (simp_all add: all_down_def)
  from t d0 have a: "\<exists>tr. check_server_health (all_down 0) ''http://localhost:8000'' =
      Inr (False, tr)" by blast
  from t d1 d2 have b: "\<exists>tr. check_api_endpoints all_down ''http://localhost:8000'' =
           Inr ([(''root'', False), (''healthcheck'', False)], tr)"
    by (auto simp: all_down_def)
  note t6 = t[THEN conjunct2, THEN conjunct2, THEN conjunct2, THEN conjunct2, THEN conjunct2]
  from t6 obtain v :: verification where
    vs: "verify_script full_env all_down = (SysExit (return_value v), report v)" and
    imp: "(\<forall>i u. \<exists>e. all_down i u = Inl e) \<longrightarrow>
           \<not> server_health v \<and> \<not> api_ok v \<and> \<not> overall_ok v \<and> return_value v = 1"
    by blast
  from imp dall have "\<not> server_health v \<and> \<not> api_ok v \<and> \<not> overall_ok v \<and> return_value v = 1"
    by (rule mp)
  with vs have "fst (verify_script full_env all_down) = SysExit 1" by simp
  with a b show ?thesis by blast
qed

section \<open>What happens when the database never answers\<close>

lemma startup_wait_all_fail:
  assumes ex: "startup_extract_host_port uri = Inr (h, p)"
    and fails: "\<forall>i. int i < N \<longrightarrow> \<not> reachable (net h p i)"
  shows "result_of (startup_wait_for_neo4j net uri N d) = Some False"
proof (cases "1 \<le> N")
  case False
  from startup_wait_low[OF ex False, of net d] show ?thesis by (simp add: result_of_def)
next
  case True
  from startup_wait_run[OF ex True, of net d] obtain ok tr k where
    w: "startup_wait_for_neo4j net uri N d = Inr (ok, tr)" and
    k: "1 \<le> k" "int k \<le> N" and
    ok: "ok \<longleftrightarrow> reachable (net h p (k - 1))"
    by blast
  have "int (k - 1) < N" using k by linarith
  then have "\<not> ok" using ok fails by blast
  with w show ?thesis by (simp add: result_of_def)
qed

lemma default_uri_extract:
  "startup_extract_host_port ''bolt://neo4j:7687'' = Inr (''/neo4j'', 7687)"
  by (simp add: startup_extract_host_port_def parse_defs)

text \<open>
  C7, as the code has it.  \<open>main\<close> of startup.py ends the process when the wait fails:
  with no database listening the last thing it logs is ``Failed to connect to Neo4j,
  exiting'', and it calls \<open>sys.exit(1)\<close>.
\<close>

theorem startup_main_exits_on_failure:
  "fst (startup_main Map.empty always_refused None) = SysExit 1 \<and>
   last (snd (startup_main Map.empty always_refused None)) =
     Log ERROR ''Failed to connect to Neo4j, exiting'' []"
proof -
  have "result_of (startup_wait_for_neo4j always_refused ''bolt://neo4j:7687'' 30 2) = Some False"
    by (rule startup_wait_all_fail[OF default_uri_extract])
       (simp add: always_refused_def reachable_def)
  then obtain tr where
    "startup_wait_for_neo4j always_refused ''bolt://neo4j:7687'' 30 2 = Inr (False, tr)"
    by (auto simp: result_of_def split: sum.splits)
  then show ?thesis
    by (simp add: startup_main_def getenv_default_def)
qed

text \<open>
  C7, amended.  In \<open>lifespan\<close> of main.py, whichever boolean the wait returns, the
  application initialization is invoked and the \<open>yield\<close> (serving) is reached, and
  after \<open>False\<close> the error ``Failed to connect to Neo4j, but continuing startup'' is
  logged.  In \<open>main\<close> of startup.py a wait that returns \<open>False\<close> is followed by the
  error log and exit status 1.
\<close>

theorem lifespan_continues_startup_main_exits:
  "(result_of (main_wait_for_neo4j net uri 30 2) = Some ok \<longrightarrow>
      (\<exists>tr. lifespan net uri init = Inr tr \<and>
            InitializeGraphiti \<in> set tr \<and> Yield \<in> set tr \<and>
            (\<not> ok \<longrightarrow>
               Log ERROR ''Failed to connect to Neo4j, but continuing startup'' [] \<in> set tr))) \<and>
   (result_of (startup_wait_for_neo4j net
        (getenv_default environ ''NEO4J_URI'' ''bolt://neo4j:7687'') 30 2) = Some False \<longrightarrow>
      fst (startup_main environ net server) = SysExit 1 \<and>
      last (snd (startup_main environ net server)) =
        Log ERROR ''Failed to connect to Neo4j, exiting'' [])"
proof (intro conjI impI)
  assume "result_of (main_wait_for_neo4j net uri 30 2) = Some ok"
  then obtain tr0 where "main_wait_for_neo4j net uri 30 2 = Inr (ok, tr0)"
    by (auto simp: result_of_def split: sum.splits)
  then show "\<exists>tr. lifespan net uri init = Inr tr \<and>
            InitializeGraphiti \<in> set tr \<and> Yield \<in> set tr \<and>
            (\<not> ok \<longrightarrow>
               Log ERROR ''Failed to connect to Neo4j, but continuing startup'' [] \<in> set tr)"
    by (simp add: lifespan_def)
next
  assume "result_of (startup_wait_for_neo4j net
        (getenv_default environ ''NEO4J_URI'' ''bolt://neo4j:7687'') 30 2) = Some False"
  then obtain tr0 where w: "startup_wait_for_neo4j net
        (getenv_default environ ''NEO4J_URI'' ''bolt://neo4j:7687'') 30 2 = Inr (False, tr0)"
    by (auto simp: result_of_def split: sum.splits)
  then show "fst (startup_main environ net server) = SysExit 1"
    by (simp add: startup_main_def)
  from w show "last (snd (startup_main environ net server)) =
        Log ERROR ''Failed to connect to Neo4j, exiting'' []"
    by (simp add: startup_main_def)
qed

theorem lifespan_continues_startup_main_exits_witness:
  "(\<exists>tr. lifespan always_refused ''bolt://neo4j:7687'' None = Inr tr \<and>
         InitializeGraphiti \<in> set tr \<and> Yield \<in> set tr \<and>
         Log ERROR ''Failed to connect to Neo4j, but continuing startup'' [] \<in> set tr) \<and>
   fst (startup_main Map.empty always_refused (Some OSError)) = SysExit 1"
proof -
  have r: "result_of (startup_wait_for_neo4j always_refused ''bolt://neo4j:7687'' 30 2) = Some False"
    by (rule startup_wait_all_fail[OF default_uri_extract])
       (simp add: always_refused_def reachable_def)
  then have m: "result_of (main_wait_for_neo4j always_refused ''bolt://neo4j:7687'' 30 2) = Some False"
    by (simp add: main_wait_eq)
  have u: "getenv_default Map.empty ''NEO4J_URI'' ''bolt://neo4j:7687'' = ''bolt://neo4j:7687''"
    by (simp add: getenv_default_def)
  note t = lifespan_continues_startup_main_exits[of always_refused "''bolt://neo4j:7687''" False
      None Map.empty "Some OSError"]
  from t m have "\<exists>tr. lifespan always_refused ''bolt://neo4j:7687'' None = Inr tr \<and>
         InitializeGraphiti \<in> set tr \<and> Yield \<in> set tr \<and>
         Log ERROR ''Failed to connect to Neo4j, but continuing startup'' [] \<in> set tr"
    by blast
  moreover from t r u have "fst (startup_main Map.empty always_refused (Some OSError)) = SysExit 1"
    by simp
  ultimately show ?thesis by blast
qed

end
